theory Spec2Isabelle
  imports Main "HOL-Library.Word" "HOL-Library.Sublist"
begin

section \<open>Runtime model\<close>

text \<open>
  The Go file \<^verbatim>\<open>types/mempool.go\<close> is embedded function by function.

  \<^item> A \<^verbatim>\<open>byte\<close> is an 8-bit word; \<^verbatim>\<open>int64\<close>, and \<^verbatim>\<open>int\<close> on the 64-bit
    targets, is a 64-bit word read as two's complement.
  \<^item> A slice \<^verbatim>\<open>[]T\<close> is a list; the nil slice and the empty slice are both \<open>[]\<close>.
  \<^item> A pointer that may be nil is an \<open>option\<close>; an interface value that may be
    nil is an \<open>option\<close> as well.
  \<^item> A run-time panic is not an \<^verbatim>\<open>error\<close> return: a function that can panic has
    the result type \<open>panic + 'a\<close>, with \<open>Inl\<close> for the panic and \<open>Inr\<close> for the
    normal return. Go's result pair \<^verbatim>\<open>(T, error)\<close> is a pair whose second
    component is \<open>None\<close> for a nil error.
\<close>

type_synonym byte = "8 word"
type_synonym int64 = "64 word"

datatype panic =
    IndexOutOfRange nat nat  \<comment> \<open>index out of range [i] with length n\<close>
  | NilDereference           \<comment> \<open>invalid memory address or nil pointer dereference\<close>

section \<open>The error taxonomy\<close>

text \<open>
  The values an \<^verbatim>\<open>error\<close> interface holds in this model: the result of
  \<^verbatim>\<open>errors.New\<close>, the seven struct types of the file with their fields in
  declaration order, and \<open>wrapError\<close>, which stands for any foreign error type
  with a method \<^verbatim>\<open>Unwrap() error\<close> (as \<^verbatim>\<open>fmt.Errorf\<close> with \<^verbatim>\<open>%w\<close> builds):
  its message and what \<^verbatim>\<open>Unwrap\<close> returns, possibly nil. No modelled type has an
  \<^verbatim>\<open>As\<close> or \<^verbatim>\<open>Is\<close> method, as none of the file's types has. The struct
  types are held by value, as their methods have value receivers. Error types
  with \<^verbatim>\<open>Unwrap() []error\<close>, as \<^verbatim>\<open>errors.Join\<close> builds, are not in the model.
\<close>

datatype error =
    errorString string
  | ErrWrongHeight int64 int64
      \<comment> \<open>desiredHeight, currentAuctionHeight\<close>
  | ErrBundleFull int64 int64
      \<comment> \<open>bundleId, bundleHeight\<close>
  | ErrTxMalformedForBundle int64 int64 int64 int64
      \<comment> \<open>bundleId, bundleSize, bundleHeight, bundleOrder\<close>
  | ErrTxTooLarge int64 int64
      \<comment> \<open>Max, Actual\<close>
  | ErrMempoolIsFull int64 int64 int64 int64
      \<comment> \<open>NumTxs, MaxTxs, TxsBytes, MaxTxsBytes\<close>
  | ErrMempoolPendingIsFull int64 int64 int64 int64
      \<comment> \<open>NumTxs, MaxTxs, TxsBytes, MaxTxsBytes\<close>
  | ErrPreCheck "error option"
      \<comment> \<open>Reason\<close>
  | wrapError string "error option"

definition ErrTxInCache :: error where
  "ErrTxInCache = errorString ''tx already exists in cache''"

subsection \<open>Message rendering\<close>

text \<open>
  \<^verbatim>\<open>fmt.Sprintf\<close> on the fragment the file uses: literal text and the verb
  \<^verbatim>\<open>%d\<close> applied to operands of type \<^verbatim>\<open>int\<close> and \<^verbatim>\<open>int64\<close>. \<open>FormatInt\<close> is
  the base-10 rendering of \<^verbatim>\<open>strconv\<close>: a minus sign for a negative value, then
  the digits with no leading zero. A \<^verbatim>\<open>%d\<close> with no operand left renders as
  \<^verbatim>\<open>%!d(MISSING)\<close> and operands left over are listed after \<^verbatim>\<open>%!(EXTRA\<close>. Other
  verbs do not occur in the file and are not interpreted: their characters are
  copied as they stand.
\<close>

definition digit_char :: "nat \<Rightarrow> char" where
  "digit_char d = ''0123456789'' ! d"

fun digits :: "nat \<Rightarrow> string" where
  "digits n = (if n < 10 then [digit_char n] else digits (n div 10) @ [digit_char (n mod 10)])"

declare digits.simps [simp del]

definition FormatInt :: "int \<Rightarrow> string" where
  "FormatInt i = (if i < 0 then CHR ''-'' # digits (nat (- i)) else digits (nat i))"

datatype operand =
    Op_int int64    \<comment> \<open>an operand of type int\<close>
  | Op_int64 int64  \<comment> \<open>an operand of type int64\<close>

fun operand_value :: "operand \<Rightarrow> int" where
  "operand_value (Op_int w) = sint w"
| "operand_value (Op_int64 w) = sint w"

fun operand_type :: "operand \<Rightarrow> string" where
  "operand_type (Op_int w) = ''int''"
| "operand_type (Op_int64 w) = ''int64''"

fun extra_operands :: "operand list \<Rightarrow> string" where
  "extra_operands [] = []"
| "extra_operands [a] = operand_type a @ ''='' @ FormatInt (operand_value a)"
| "extra_operands (a # b # as) =
     operand_type a @ ''='' @ FormatInt (operand_value a) @ '', '' @ extra_operands (b # as)"

fun Sprintf :: "string \<Rightarrow> operand list \<Rightarrow> string" where
  "Sprintf [] args =
     (if args = [] then [] else ''%!(EXTRA '' @ extra_operands args @ '')'')"
| "Sprintf [c] args = c # Sprintf [] args"
| "Sprintf (c # v # format) args =
     (if c = CHR ''%'' \<and> v = CHR ''d'' then
        (case args of
           [] \<Rightarrow> ''%!d(MISSING)'' @ Sprintf format []
         | a # as \<Rightarrow> FormatInt (operand_value a) @ Sprintf format as)
      else c # Sprintf (v # format) args)"

text \<open>The \<^verbatim>\<open>Error()\<close> methods of the struct types, each on the fields of its receiver.\<close>

definition ErrWrongHeight_Error :: "int64 \<Rightarrow> int64 \<Rightarrow> string" where
  "ErrWrongHeight_Error desiredHeight currentAuctionHeight =
     Sprintf ''Tx submitted for wrong height, asked for %d, but current auction height is %d''
       [Op_int desiredHeight, Op_int currentAuctionHeight]"

definition ErrBundleFull_Error :: "int64 \<Rightarrow> int64 \<Rightarrow> string" where
  "ErrBundleFull_Error bundleId bundleHeight =
     Sprintf ''Tx submitted but bundle is full, for bundleId %d with bundle size %d''
       [Op_int64 bundleId, Op_int64 bundleHeight]"

definition ErrTxMalformedForBundle_Error :: "int64 \<Rightarrow> int64 \<Rightarrow> int64 \<Rightarrow> int64 \<Rightarrow> string" where
  "ErrTxMalformedForBundle_Error bundleId bundleSize bundleHeight bundleOrder =
     Sprintf ''Tx submitted but malformed with respect to bundling, for bundleId %d, at height %d, with bundleSize %d, and bundleOrder %d''
       [Op_int64 bundleId, Op_int64 bundleHeight, Op_int64 bundleSize, Op_int64 bundleOrder]"

definition ErrTxTooLarge_Error :: "int64 \<Rightarrow> int64 \<Rightarrow> string" where
  "ErrTxTooLarge_Error Max' Actual =
     Sprintf ''Tx too large. Max size is %d, but got %d'' [Op_int Max', Op_int Actual]"

definition ErrMempoolIsFull_Error :: "int64 \<Rightarrow> int64 \<Rightarrow> int64 \<Rightarrow> int64 \<Rightarrow> string" where
  "ErrMempoolIsFull_Error NumTxs MaxTxs TxsBytes MaxTxsBytes =
     Sprintf ''mempool is full: number of txs %d (max: %d), total txs bytes %d (max: %d)''
       [Op_int NumTxs, Op_int MaxTxs, Op_int64 TxsBytes, Op_int64 MaxTxsBytes]"

definition ErrMempoolPendingIsFull_Error :: "int64 \<Rightarrow> int64 \<Rightarrow> int64 \<Rightarrow> int64 \<Rightarrow> string" where
  "ErrMempoolPendingIsFull_Error NumTxs MaxTxs TxsBytes MaxTxsBytes =
     Sprintf ''mempool pending set is full: number of txs %d (max: %d), total txs bytes %d (max: %d)''
       [Op_int NumTxs, Op_int MaxTxs, Op_int64 TxsBytes, Op_int64 MaxTxsBytes]"

text \<open>
  The call \<^verbatim>\<open>err.Error()\<close> on an interface value dispatches on the dynamic type.
  \<^verbatim>\<open>ErrPreCheck.Error\<close> is \<^verbatim>\<open>return e.Reason.Error()\<close>: a method call on the
  interface value \<open>Reason\<close>, which panics when that value is nil.
\<close>

fun Error :: "error \<Rightarrow> panic + string" where
  "Error (errorString s) = Inr s"
| "Error (ErrWrongHeight desiredHeight currentAuctionHeight) =
     Inr (ErrWrongHeight_Error desiredHeight currentAuctionHeight)"
| "Error (ErrBundleFull bundleId bundleHeight) =
     Inr (ErrBundleFull_Error bundleId bundleHeight)"
| "Error (ErrTxMalformedForBundle bundleId bundleSize bundleHeight bundleOrder) =
     Inr (ErrTxMalformedForBundle_Error bundleId bundleSize bundleHeight bundleOrder)"
| "Error (ErrTxTooLarge Max' Actual) = Inr (ErrTxTooLarge_Error Max' Actual)"
| "Error (ErrMempoolIsFull NumTxs MaxTxs TxsBytes MaxTxsBytes) =
     Inr (ErrMempoolIsFull_Error NumTxs MaxTxs TxsBytes MaxTxsBytes)"
| "Error (ErrMempoolPendingIsFull NumTxs MaxTxs TxsBytes MaxTxsBytes) =
     Inr (ErrMempoolPendingIsFull_Error NumTxs MaxTxs TxsBytes MaxTxsBytes)"
| "Error (ErrPreCheck Reason) =
     (case Reason of None \<Rightarrow> Inl NilDereference | Some r \<Rightarrow> Error r)"
| "Error (wrapError msg err) = Inr msg"

subsection \<open>Classification\<close>

text \<open>
  \<^verbatim>\<open>errors.As(err, target)\<close> with \<open>target\<close> a non-nil pointer to a variable of a
  concrete error type: false for a nil \<open>err\<close>; otherwise it walks the chain,
  answering true at the first error whose dynamic type is the target's, following
  \<^verbatim>\<open>Unwrap()\<close> where the error has that method, and answering false where it has
  none or where it returns nil. The value it stores in the target is dropped by
  the caller and is not modelled. \<open>Unwrap_method\<close> is \<open>None\<close> for a type without
  the method, and else the method's result.
\<close>

datatype error_type =
    T_errorString | T_ErrWrongHeight | T_ErrBundleFull | T_ErrTxMalformedForBundle
  | T_ErrTxTooLarge | T_ErrMempoolIsFull | T_ErrMempoolPendingIsFull | T_ErrPreCheck
  | T_wrapError

fun TypeOf :: "error \<Rightarrow> error_type" where
  "TypeOf (errorString s) = T_errorString"
| "TypeOf (ErrWrongHeight a b) = T_ErrWrongHeight"
| "TypeOf (ErrBundleFull a b) = T_ErrBundleFull"
| "TypeOf (ErrTxMalformedForBundle a b c d) = T_ErrTxMalformedForBundle"
| "TypeOf (ErrTxTooLarge a b) = T_ErrTxTooLarge"
| "TypeOf (ErrMempoolIsFull a b c d) = T_ErrMempoolIsFull"
| "TypeOf (ErrMempoolPendingIsFull a b c d) = T_ErrMempoolPendingIsFull"
| "TypeOf (ErrPreCheck Reason) = T_ErrPreCheck"
| "TypeOf (wrapError msg err) = T_wrapError"

fun Unwrap_method :: "error \<Rightarrow> error option option" where
  "Unwrap_method (wrapError msg err) = Some err"
| "Unwrap_method e = None"

function errors_as :: "error \<Rightarrow> error_type \<Rightarrow> bool" where
  "errors_as err targetType =
     (if TypeOf err = targetType then True
      else (case Unwrap_method err of
              None \<Rightarrow> False
            | Some None \<Rightarrow> False
            | Some (Some err') \<Rightarrow> errors_as err' targetType))"
  by pat_completeness auto
termination
proof (relation "measure (\<lambda>(err, targetType). size err)")
  show "wf (measure (\<lambda>(err, targetType). size err))"
    by simp
next
  fix err :: error and targetType :: error_type and x2 :: "error option" and err' :: error
  assume "Unwrap_method err = Some x2" and "x2 = Some err'"
  then show "((err', targetType), (err, targetType)) \<in> measure (\<lambda>(err, targetType). size err)"
    by (cases err) simp_all
qed

declare errors_as.simps [simp del]

definition errors_As :: "error option \<Rightarrow> error_type \<Rightarrow> bool" where
  "errors_As err targetType =
     (case err of None \<Rightarrow> False | Some e \<Rightarrow> errors_as e targetType)"

text \<open>
  \<^verbatim>\<open>func IsPreCheckError(err error) bool\<close>: the target \<^verbatim>\<open>&ErrPreCheck{}\<close> is a
  non-nil pointer to an \<^verbatim>\<open>ErrPreCheck\<close>, so \<^verbatim>\<open>errors.As\<close> does not panic on it.
\<close>

definition IsPreCheckError :: "error option \<Rightarrow> bool" where
  "IsPreCheckError err = errors_As err T_ErrPreCheck"

text \<open>
  The chain \<^verbatim>\<open>errors.As\<close> walks from an error: the error, what it unwraps to, and
  so on. An error transitively wraps the errors after the first.
\<close>

function unwrap_chain :: "error \<Rightarrow> error list" where
  "unwrap_chain err =
     err # (case Unwrap_method err of
              None \<Rightarrow> []
            | Some None \<Rightarrow> []
            | Some (Some err') \<Rightarrow> unwrap_chain err')"
  by pat_completeness auto
termination
proof (relation "measure size")
  show "wf (measure (size :: error \<Rightarrow> nat))"
    by simp
next
  fix err :: error and x2 :: "error option" and err' :: error
  assume "Unwrap_method err = Some x2" and "x2 = Some err'"
  then show "(err', err) \<in> measure size"
    by (cases err) simp_all
qed

declare unwrap_chain.simps [simp del]

definition wraps :: "error \<Rightarrow> error \<Rightarrow> bool" where
  "wraps err inner = (inner \<in> set (tl (unwrap_chain err)))"

section \<open>Transaction keys\<close>

text \<open>
  \<^verbatim>\<open>type TxKey [sha256.Size]byte\<close>: a list of bytes, which is a \<^verbatim>\<open>TxKey\<close> when its
  length is \<open>sha256_Size\<close>. The wire message \<^verbatim>\<open>tmproto.TxKey\<close> has one field.
\<close>

definition sha256_Size :: nat where
  "sha256_Size = 32"

type_synonym TxKey = "byte list"

record tmproto_TxKey =
  TxKey :: "byte list"

text \<open>
  Both conversions hold the loop \<^verbatim>\<open>for i := range src { dst[i] = src[i] }\<close>. The
  index runs up to \<open>length src\<close>; the read \<^verbatim>\<open>src[i]\<close> is in range by the loop
  bound, and the write \<^verbatim>\<open>dst[i]\<close> panics when \<open>i\<close> is not below \<open>length dst\<close>.
\<close>

function copy_range :: "nat \<Rightarrow> byte list \<Rightarrow> byte list \<Rightarrow> panic + byte list" where
  "copy_range i src dst =
     (if i < length src then
        (if i < length dst then copy_range (Suc i) src (dst[i := src ! i])
         else Inl (IndexOutOfRange i (length dst)))
      else Inr dst)"
  by pat_completeness auto
termination
  by (relation "measure (\<lambda>(i, src, dst). length src - i)") auto

declare copy_range.simps [simp del]

text \<open>
  \<^verbatim>\<open>func (txKey *TxKey) ToProto() *tmproto.TxKey\<close>, on the key the receiver points
  to. \<^verbatim>\<open>new(tmproto.TxKey)\<close> has the nil slice as its field; \<^verbatim>\<open>make\<close> gives
  \<open>length txKey\<close> zero bytes.
\<close>

definition ToProto :: "TxKey \<Rightarrow> panic + tmproto_TxKey" where
  "ToProto txKey =
     (let tp = \<lparr>TxKey = []\<rparr>;
          txBzs = replicate (length txKey) (0 :: byte)
      in if length txKey > 0 then
           (case copy_range 0 txKey txBzs of
              Inl p \<Rightarrow> Inl p
            | Inr txBzs' \<Rightarrow> Inr (tp\<lparr>TxKey := txBzs'\<rparr>))
         else Inr tp)"

text \<open>
  \<^verbatim>\<open>func TxKeyFromProto(dp *tmproto.TxKey) (TxKey, error)\<close>. \<^verbatim>\<open>TxKey{}\<close> and
  \<^verbatim>\<open>var txBzs [sha256.Size]byte\<close> are both the array of 32 zero bytes.
\<close>

definition TxKeyFromProto :: "tmproto_TxKey option \<Rightarrow> panic + (TxKey \<times> error option)" where
  "TxKeyFromProto dp =
     (case dp of
        None \<Rightarrow> Inr (replicate sha256_Size 0, Some (errorString ''nil data''))
      | Some d \<Rightarrow>
          (case copy_range 0 (TxKey d) (replicate sha256_Size 0) of
             Inl p \<Rightarrow> Inl p
           | Inr txBzs \<Rightarrow> Inr (txBzs, None)))"

text \<open>
  \<^verbatim>\<open>func TxKeysListFromProto(dps []*tmproto.TxKey) ([]TxKey, error)\<close>: the loop over
  \<open>dps\<close> carries the slice \<open>txKeys\<close> built so far.
\<close>

fun TxKeysListFromProto_loop ::
  "tmproto_TxKey option list \<Rightarrow> TxKey list \<Rightarrow> panic + (TxKey list \<times> error option)" where
  "TxKeysListFromProto_loop [] txKeys = Inr (txKeys, None)"
| "TxKeysListFromProto_loop (dp # dps) txKeys =
     (case TxKeyFromProto dp of
        Inl p \<Rightarrow> Inl p
      | Inr (txKey, err) \<Rightarrow>
          (case err of
             Some e \<Rightarrow> Inr ([], Some e)
           | None \<Rightarrow> TxKeysListFromProto_loop dps (txKeys @ [txKey])))"

definition TxKeysListFromProto ::
  "tmproto_TxKey option list \<Rightarrow> panic + (TxKey list \<times> error option)" where
  "TxKeysListFromProto dps = TxKeysListFromProto_loop dps []"

section \<open>The copy loop\<close>

lemma copy_range_fits:
  "i \<le> length src \<Longrightarrow> length src \<le> length dst \<Longrightarrow>
   copy_range i src dst = Inr (take i dst @ drop i src @ drop (length src) dst)"
proof (induction i src dst rule: copy_range.induct)
  case (1 i src dst)
  show ?case
  proof (cases "i < length src")
    case True
    with "1.prems" have idst: "i < length dst" by simp
    have step: "copy_range i src dst = copy_range (Suc i) src (dst[i := src ! i])"
      using True idst by (subst copy_range.simps) simp
    have ih: "copy_range (Suc i) src (dst[i := src ! i]) =
        Inr (take (Suc i) (dst[i := src ! i]) @ drop (Suc i) src
             @ drop (length src) (dst[i := src ! i]))"
      using "1.IH" [OF True idst] True "1.prems" by simp
    have a: "take (Suc i) (dst[i := src ! i]) = take i dst @ [src ! i]"
      using idst by (simp add: take_Suc_conv_app_nth)
    have b: "drop (length src) (dst[i := src ! i]) = drop (length src) dst"
      using True by simp
    have c: "drop i src = src ! i # drop (Suc i) src"
      using True by (simp add: Cons_nth_drop_Suc)
    show ?thesis
      by (simp add: step ih a b c)
  next
    case False
    with "1.prems" have "i = length src" by simp
    then show ?thesis
      by (subst copy_range.simps) simp
  qed
qed

lemma copy_range_overrun:
  "i \<le> length dst \<Longrightarrow> length dst < length src \<Longrightarrow>
   copy_range i src dst = Inl (IndexOutOfRange (length dst) (length dst))"
proof (induction i src dst rule: copy_range.induct)
  case (1 i src dst)
  show ?case
  proof (cases "i < length dst")
    case True
    with "1.prems" have isrc: "i < length src" by simp
    have "copy_range i src dst = copy_range (Suc i) src (dst[i := src ! i])"
      using True isrc by (subst copy_range.simps) simp
    also have "\<dots> = Inl (IndexOutOfRange (length dst) (length dst))"
      using "1.IH" [OF isrc True] True "1.prems" by simp
    finally show ?thesis .
  next
    case False
    with "1.prems" have "i = length dst" by simp
    with "1.prems" show ?thesis
      by (subst copy_range.simps) simp
  qed
qed

lemma TxKeyFromProto_present_fits:
  "length (TxKey d) \<le> sha256_Size \<Longrightarrow>
   TxKeyFromProto (Some d) =
     Inr (TxKey d @ replicate (sha256_Size - length (TxKey d)) 0, None)"
  by (simp add: TxKeyFromProto_def copy_range_fits)

lemma TxKeyFromProto_present_overrun:
  "sha256_Size < length (TxKey d) \<Longrightarrow>
   TxKeyFromProto (Some d) = Inl (IndexOutOfRange sha256_Size sha256_Size)"
  by (simp add: TxKeyFromProto_def copy_range_overrun)

lemma ToProto_copies:
  "ToProto txKey = Inr \<lparr>TxKey = txKey\<rparr>"
  by (cases "txKey = []") (simp_all add: ToProto_def Let_def copy_range_fits)

lemma TxKeyFromProto_nil:
  "TxKeyFromProto None = Inr (replicate sha256_Size 0, Some (errorString ''nil data''))"
  by (simp add: TxKeyFromProto_def)

section \<open>The list conversion\<close>

lemma TxKeysListFromProto_loop_all:
  "\<forall>dp \<in> set dps. TxKeyFromProto dp = Inr (f dp, None) \<Longrightarrow>
   TxKeysListFromProto_loop dps txKeys = Inr (txKeys @ map f dps, None)"
  by (induction dps arbitrary: txKeys) simp_all

lemma TxKeysListFromProto_loop_first_nil:
  "i < length dps \<Longrightarrow> dps ! i = None \<Longrightarrow>
   \<forall>j < i. \<exists>k. TxKeyFromProto (dps ! j) = Inr (k, None) \<Longrightarrow>
   TxKeysListFromProto_loop dps txKeys = Inr ([], Some (errorString ''nil data''))"
proof (induction dps arbitrary: i txKeys)
  case Nil
  then show ?case by simp
next
  case (Cons dp dps)
  show ?case
  proof (cases i)
    case 0
    with Cons.prems have "dp = None" by simp
    then show ?thesis by (simp add: TxKeyFromProto_nil)
  next
    case (Suc i')
    from Cons.prems Suc obtain k where k: "TxKeyFromProto dp = Inr (k, None)"
      by fastforce
    have rest: "\<forall>j < i'. \<exists>k. TxKeyFromProto (dps ! j) = Inr (k, None)"
    proof (intro allI impI)
      fix j assume "j < i'"
      then have "Suc j < i" using Suc by simp
      with Cons.prems(3) have "\<exists>k. TxKeyFromProto ((dp # dps) ! Suc j) = Inr (k, None)"
        by blast
      then show "\<exists>k. TxKeyFromProto (dps ! j) = Inr (k, None)" by simp
    qed
    have "TxKeysListFromProto_loop dps (txKeys @ [k]) = Inr ([], Some (errorString ''nil data''))"
      using Cons.IH [of i' "txKeys @ [k]"] Cons.prems(1,2) Suc rest by simp
    then show ?thesis by (simp add: k)
  qed
qed

section \<open>Rendering and classification\<close>

lemma Sprintf_literal:
  "c \<noteq> CHR ''%'' \<Longrightarrow> Sprintf (c # format) args = c # Sprintf format args"
  by (cases format) simp_all

lemma Sprintf_verb_d:
  "Sprintf (CHR ''%'' # CHR ''d'' # format) (a # as) =
     FormatInt (operand_value a) @ Sprintf format as"
  by simp

lemma Sprintf_end: "Sprintf [] [] = []"
  by simp

lemmas Sprintf_unfold =
  Sprintf_literal Sprintf_verb_d Sprintf_end char.inject list.simps append.simps
  operand_value.simps append_Nil2 simp_thms

lemma ErrTxTooLarge_Error_eq:
  "ErrTxTooLarge_Error m a =
     ''Tx too large. Max size is '' @ FormatInt (sint m) @ '', but got '' @ FormatInt (sint a)"
  unfolding ErrTxTooLarge_Error_def by (simp only: Sprintf_unfold)

lemma ErrMempoolIsFull_Error_eq:
  "ErrMempoolIsFull_Error n mx b mb =
     ''mempool is full: number of txs '' @ FormatInt (sint n) @ '' (max: '' @ FormatInt (sint mx)
       @ ''), total txs bytes '' @ FormatInt (sint b) @ '' (max: '' @ FormatInt (sint mb) @ '')''"
  unfolding ErrMempoolIsFull_Error_def by (simp only: Sprintf_unfold)

lemma sublist_append_skip: "sublist xs ys \<Longrightarrow> sublist xs (zs @ ys)"
  unfolding sublist_def by (metis append.assoc)

lemma errors_as_chain:
  "errors_as err targetType = (\<exists>x \<in> set (unwrap_chain err). TypeOf x = targetType)"
proof (induction err targetType rule: errors_as.induct)
  case (1 err targetType)
  then show ?case
    by (subst errors_as.simps, subst unwrap_chain.simps) (auto split: option.splits)
qed

lemma errors_as_no_Unwrap:
  "Unwrap_method err = None \<Longrightarrow> errors_as err targetType = (TypeOf err = targetType)"
  by (subst errors_as.simps) simp

lemma wraps_in_chain: "wraps err inner \<Longrightarrow> inner \<in> set (unwrap_chain err)"
  unfolding wraps_def by (cases "unwrap_chain err") auto

lemma unwrap_chain_head: "\<exists>rest. unwrap_chain err = err # rest"
  by (subst unwrap_chain.simps) simp

lemma in_unwrap_chain: "(x \<in> set (unwrap_chain err)) = (x = err \<or> wraps err x)"
proof -
  obtain rest where "unwrap_chain err = err # rest"
    using unwrap_chain_head by blast
  then show ?thesis
    by (simp add: wraps_def)
qed

lemma TypeOf_ErrPreCheck: "(TypeOf x = T_ErrPreCheck) = (\<exists>Reason. x = ErrPreCheck Reason)"
  by (cases x) simp_all

lemma IsPreCheckError_chain:
  "IsPreCheckError (Some err) = (\<exists>x \<in> set (unwrap_chain err). TypeOf x = T_ErrPreCheck)"
  by (simp add: IsPreCheckError_def errors_As_def errors_as_chain)

lemma IsPreCheckError_is_or_wraps:
  "IsPreCheckError (Some err) =
     ((\<exists>Reason. err = ErrPreCheck Reason) \<or> (\<exists>Reason. wraps err (ErrPreCheck Reason)))"
  unfolding IsPreCheckError_chain
  by (auto simp: in_unwrap_chain TypeOf_ErrPreCheck)

section \<open>The conversions of a key\<close>

text \<open>
  C1. The claim: a present wire message whose byte field is longer than 32 bytes
  converts successfully to the first 32 bytes of the field. The code does not: the
  loop runs over the field, and the write at index 32 into the 32-byte array
  panics. Evaluated here at a field of 33 zero bytes.
\<close>

theorem TxKeyFromProto_33_bytes_panics:
  "TxKeyFromProto (Some \<lparr>TxKey = replicate 33 0\<rparr>) = Inl (IndexOutOfRange 32 32)"
  by (simp add: TxKeyFromProto_present_overrun sha256_Size_def)

text \<open>
  C2. Round trip: for every 32-byte key \<open>k\<close>, \<open>TxKeyFromProto\<close> applied to the
  message \<open>ToProto\<close> returns for \<open>k\<close> returns \<open>k\<close> and the nil error. Every key
  \<^verbatim>\<open>sha256.Sum256\<close> derives is such a \<open>k\<close>, by its type \<^verbatim>\<open>[32]byte\<close>.
\<close>

theorem TxKey_round_trip:
  "length k = sha256_Size \<Longrightarrow>
   (case ToProto k of
      Inl p \<Rightarrow> Inl p
    | Inr tp \<Rightarrow> TxKeyFromProto (Some tp)) = Inr (k, None)"
  by (simp add: ToProto_copies TxKeyFromProto_present_fits)

theorem TxKey_round_trip_witness:
  "(case ToProto (map of_nat [1 ..< 33]) of
      Inl p \<Rightarrow> Inl p
    | Inr tp \<Rightarrow> TxKeyFromProto (Some tp)) = Inr (map of_nat [1 ..< 33], None)"
  using TxKey_round_trip [of "map of_nat [1 ..< 33]"]
  by (simp add: sha256_Size_def)

text \<open>
  C3. Fail fast: when element \<open>i\<close> of the input is nil and every element before it
  converts successfully, \<open>TxKeysListFromProto\<close> returns the error \<open>TxKeyFromProto\<close>
  returns for element \<open>i\<close>, the \<^verbatim>\<open>nil data\<close> error, and the nil slice, whatever
  the keys converted before.
\<close>

theorem TxKeysListFromProto_fail_fast:
  "i < length dps \<Longrightarrow> dps ! i = None \<Longrightarrow>
   \<forall>j < i. \<exists>k. TxKeyFromProto (dps ! j) = Inr (k, None) \<Longrightarrow>
   (\<exists>k e. TxKeyFromProto (dps ! i) = Inr (k, Some e) \<and>
      e = errorString ''nil data'' \<and>
      TxKeysListFromProto dps = Inr ([], Some e))"
  by (simp add: TxKeysListFromProto_def TxKeysListFromProto_loop_first_nil TxKeyFromProto_nil)

theorem TxKeysListFromProto_fail_fast_witness:
  "TxKeysListFromProto [Some \<lparr>TxKey = [1, 2, 3]\<rparr>, Some \<lparr>TxKey = []\<rparr>, None, Some \<lparr>TxKey = [4]\<rparr>]
     = Inr ([], Some (errorString ''nil data''))"
proof -
  let ?dps = "[Some \<lparr>TxKey = [1, 2, 3]\<rparr>, Some \<lparr>TxKey = []\<rparr>, None, Some \<lparr>TxKey = [4 :: byte]\<rparr>]"
  have before: "\<forall>j < 2. \<exists>k. TxKeyFromProto (?dps ! j) = Inr (k, None)"
    by (simp add: less_Suc_eq numeral_2_eq_2 TxKeyFromProto_present_fits sha256_Size_def)
  show ?thesis
    using TxKeysListFromProto_fail_fast [of 2 ?dps, OF _ _ before] by simp
qed

text \<open>
  C4. \<open>TxKeyFromProto\<close> on the nil pointer returns the zero key together with a
  non-nil error, and the message of that error is \<^verbatim>\<open>nil data\<close>.
\<close>

theorem TxKeyFromProto_nil_data:
  "TxKeyFromProto None = Inr (replicate sha256_Size 0, Some (errorString ''nil data'')) \<and>
   Error (errorString ''nil data'') = Inr ''nil data''"
  by (simp add: TxKeyFromProto_def)

text \<open>
  C6. For a list of present wire messages with fields of at most 32 bytes,
  \<open>TxKeysListFromProto\<close> returns the nil error and a list as long as the input,
  whose element \<open>i\<close> is the key \<open>TxKeyFromProto\<close> returns for element \<open>i\<close> of the
  input.
\<close>

theorem TxKeysListFromProto_order:
  "\<forall>dp \<in> set dps. \<exists>d. dp = Some d \<and> length (TxKey d) \<le> sha256_Size \<Longrightarrow>
   (\<exists>txKeys. TxKeysListFromProto dps = Inr (txKeys, None) \<and>
      length txKeys = length dps \<and>
      (\<forall>i < length dps. TxKeyFromProto (dps ! i) = Inr (txKeys ! i, None)))"
proof -
  assume valid: "\<forall>dp \<in> set dps. \<exists>d. dp = Some d \<and> length (TxKey d) \<le> sha256_Size"
  define f :: "tmproto_TxKey option \<Rightarrow> TxKey"
    where "f dp = TxKey (the dp) @ replicate (sha256_Size - length (TxKey (the dp))) 0" for dp
  have each: "\<forall>dp \<in> set dps. TxKeyFromProto dp = Inr (f dp, None)"
    using valid by (auto simp: f_def TxKeyFromProto_present_fits)
  have "TxKeysListFromProto dps = Inr (map f dps, None)"
    using TxKeysListFromProto_loop_all [OF each, of "[]"]
    by (simp add: TxKeysListFromProto_def)
  moreover have "\<forall>i < length dps. TxKeyFromProto (dps ! i) = Inr (map f dps ! i, None)"
    using each by simp
  ultimately show ?thesis by simp
qed

theorem TxKeysListFromProto_order_witness:
  "\<exists>txKeys. TxKeysListFromProto [Some \<lparr>TxKey = replicate 32 7\<rparr>, Some \<lparr>TxKey = [1, 2]\<rparr>]
       = Inr (txKeys, None) \<and>
     length txKeys = 2 \<and>
     TxKeyFromProto (Some \<lparr>TxKey = replicate 32 7\<rparr>) = Inr (txKeys ! 0, None) \<and>
     TxKeyFromProto (Some \<lparr>TxKey = [1, 2]\<rparr>) = Inr (txKeys ! 1, None)"
proof -
  let ?dps = "[Some \<lparr>TxKey = replicate 32 7\<rparr>, Some \<lparr>TxKey = [1, 2 :: byte]\<rparr>]"
  have valid: "\<forall>dp \<in> set ?dps. \<exists>d. dp = Some d \<and> length (TxKey d) \<le> sha256_Size"
    by (simp add: sha256_Size_def)
  from TxKeysListFromProto_order [OF valid] obtain txKeys where
    ret: "TxKeysListFromProto ?dps = Inr (txKeys, None)" and
    len: "length txKeys = length ?dps" and
    each: "\<forall>i < length ?dps. TxKeyFromProto (?dps ! i) = Inr (txKeys ! i, None)"
    by blast
  have "TxKeyFromProto (?dps ! 0) = Inr (txKeys ! 0, None)"
    using each [rule_format, of 0] by simp
  moreover have "TxKeyFromProto (?dps ! 1) = Inr (txKeys ! 1, None)"
    using each [rule_format, of 1] by simp
  ultimately have "TxKeyFromProto (Some \<lparr>TxKey = replicate 32 7\<rparr>) = Inr (txKeys ! 0, None)"
    and "TxKeyFromProto (Some \<lparr>TxKey = [1, 2]\<rparr>) = Inr (txKeys ! 1, None)"
    by simp_all
  with ret len show ?thesis
    by (intro exI [of _ txKeys]) simp
qed

text \<open>
  C7. \<open>ToProto\<close> returns normally on every 32-byte key: the field of the message
  it returns has length 32 and is the key.
\<close>

theorem ToProto_total:
  "length txKey = sha256_Size \<Longrightarrow>
   (\<exists>tp. ToProto txKey = Inr tp \<and> length (TxKey tp) = 32 \<and> TxKey tp = txKey)"
  by (simp add: ToProto_copies sha256_Size_def)

theorem ToProto_total_witness:
  "\<exists>tp. ToProto (replicate 32 255) = Inr tp \<and> length (TxKey tp) = 32 \<and>
     TxKey tp = replicate 32 255"
  using ToProto_total [of "replicate 32 255"] by (simp add: sha256_Size_def)

text \<open>
  C8. For a present wire message whose field is shorter than 32 bytes, the empty
  field included, \<open>TxKeyFromProto\<close> returns the nil error and a 32-byte key: the
  bytes of the field in their positions, then zero bytes.
\<close>

theorem TxKeyFromProto_short:
  "length (TxKey d) < sha256_Size \<Longrightarrow>
   (\<exists>k. TxKeyFromProto (Some d) = Inr (k, None) \<and>
      length k = 32 \<and>
      k = TxKey d @ replicate (32 - length (TxKey d)) 0)"
  by (simp add: TxKeyFromProto_present_fits sha256_Size_def)

theorem TxKeyFromProto_short_witness:
  "TxKeyFromProto (Some \<lparr>TxKey = [1, 2, 3]\<rparr>) = Inr ([1, 2, 3] @ replicate 29 0, None) \<and>
   TxKeyFromProto (Some \<lparr>TxKey = []\<rparr>) = Inr (replicate 32 0, None)"
  using TxKeyFromProto_short [of "\<lparr>TxKey = [1, 2, 3]\<rparr>"] TxKeyFromProto_short [of "\<lparr>TxKey = []\<rparr>"]
  by (simp add: sha256_Size_def)

section \<open>The error taxonomy: rendering and classification\<close>

text \<open>
  C5. \<open>IsPreCheckError\<close> is true of an error exactly when the error is an
  \<open>ErrPreCheck\<close> or transitively wraps one, that is, when the chain that
  \<^verbatim>\<open>errors.As\<close> walks from it holds an \<open>ErrPreCheck\<close>. So it is true of an
  \<open>ErrPreCheck\<close> with any \<open>Reason\<close>, the nil one included, and of every error
  that transitively wraps an \<open>ErrPreCheck\<close>; it is false of every error whose
  chain holds none, among them each other error of the file, whatever its
  fields; and it is false of the nil error. It is a total function: no argument
  makes it panic.
\<close>

theorem IsPreCheckError_classifies:
  "(\<forall>err. IsPreCheckError (Some err) =
      (\<exists>x \<in> set (unwrap_chain err). TypeOf x = T_ErrPreCheck)) \<and>
   (\<forall>err. IsPreCheckError (Some err) =
      ((\<exists>Reason. err = ErrPreCheck Reason) \<or> (\<exists>Reason. wraps err (ErrPreCheck Reason)))) \<and>
   (\<forall>Reason. IsPreCheckError (Some (ErrPreCheck Reason))) \<and>
   (\<forall>err Reason. wraps err (ErrPreCheck Reason) \<longrightarrow> IsPreCheckError (Some err)) \<and>
   \<not> IsPreCheckError (Some ErrTxInCache) \<and>
   (\<forall>a b. \<not> IsPreCheckError (Some (ErrWrongHeight a b))) \<and>
   (\<forall>a b. \<not> IsPreCheckError (Some (ErrBundleFull a b))) \<and>
   (\<forall>a b c d. \<not> IsPreCheckError (Some (ErrTxMalformedForBundle a b c d))) \<and>
   (\<forall>a b. \<not> IsPreCheckError (Some (ErrTxTooLarge a b))) \<and>
   (\<forall>a b c d. \<not> IsPreCheckError (Some (ErrMempoolIsFull a b c d))) \<and>
   (\<forall>a b c d. \<not> IsPreCheckError (Some (ErrMempoolPendingIsFull a b c d))) \<and>
   \<not> IsPreCheckError None"
proof -
  have chain: "\<forall>err. IsPreCheckError (Some err) =
      (\<exists>x \<in> set (unwrap_chain err). TypeOf x = T_ErrPreCheck)"
    by (simp add: IsPreCheckError_chain)
  have iff: "\<forall>err. IsPreCheckError (Some err) =
      ((\<exists>Reason. err = ErrPreCheck Reason) \<or> (\<exists>Reason. wraps err (ErrPreCheck Reason)))"
    using IsPreCheckError_is_or_wraps by blast
  have self: "\<forall>Reason. IsPreCheckError (Some (ErrPreCheck Reason))"
    using iff by blast
  have wrapped: "\<forall>err Reason. wraps err (ErrPreCheck Reason) \<longrightarrow> IsPreCheckError (Some err)"
    using iff by blast
  have others:
    "\<not> IsPreCheckError (Some ErrTxInCache) \<and>
     (\<forall>a b. \<not> IsPreCheckError (Some (ErrWrongHeight a b))) \<and>
     (\<forall>a b. \<not> IsPreCheckError (Some (ErrBundleFull a b))) \<and>
     (\<forall>a b c d. \<not> IsPreCheckError (Some (ErrTxMalformedForBundle a b c d))) \<and>
     (\<forall>a b. \<not> IsPreCheckError (Some (ErrTxTooLarge a b))) \<and>
     (\<forall>a b c d. \<not> IsPreCheckError (Some (ErrMempoolIsFull a b c d))) \<and>
     (\<forall>a b c d. \<not> IsPreCheckError (Some (ErrMempoolPendingIsFull a b c d))) \<and>
     \<not> IsPreCheckError None"
    by (simp add: IsPreCheckError_def errors_As_def errors_as_no_Unwrap ErrTxInCache_def)
  from chain iff self wrapped others show ?thesis
    by (intro conjI) blast+
qed

theorem IsPreCheckError_classifies_witness:
  "wraps (wrapError ''broadcast failed''
            (Some (wrapError ''check tx'' (Some (ErrPreCheck (Some (ErrTxTooLarge 100 150)))))))
      (ErrPreCheck (Some (ErrTxTooLarge 100 150))) \<and>
   IsPreCheckError (Some (wrapError ''broadcast failed''
            (Some (wrapError ''check tx'' (Some (ErrPreCheck (Some (ErrTxTooLarge 100 150)))))))) \<and>
   \<not> IsPreCheckError (Some (wrapError ''broadcast failed'' (Some (ErrTxTooLarge 100 150)))) \<and>
   \<not> IsPreCheckError (Some (wrapError ''no cause'' None))"
proof -
  note c = IsPreCheckError_classifies
  have w: "wraps (wrapError ''broadcast failed''
            (Some (wrapError ''check tx'' (Some (ErrPreCheck (Some (ErrTxTooLarge 100 150)))))))
      (ErrPreCheck (Some (ErrTxTooLarge 100 150)))"
    by (simp add: wraps_def unwrap_chain.simps)
  have pos: "IsPreCheckError (Some (wrapError ''broadcast failed''
            (Some (wrapError ''check tx'' (Some (ErrPreCheck (Some (ErrTxTooLarge 100 150))))))))"
    using c w by blast
  have chain: "IsPreCheckError (Some err) =
      (\<exists>x \<in> set (unwrap_chain err). TypeOf x = T_ErrPreCheck)" for err
    by (rule c [THEN conjunct1, rule_format])
  have neg1: "\<not> IsPreCheckError (Some (wrapError ''broadcast failed'' (Some (ErrTxTooLarge 100 150))))"
    unfolding chain by (simp add: unwrap_chain.simps)
  have neg2: "\<not> IsPreCheckError (Some (wrapError ''no cause'' None))"
    unfolding chain by (simp add: unwrap_chain.simps)
  from w pos neg1 neg2 show ?thesis by blast
qed

text \<open>
  C9. For all field values the message of \<open>ErrTxTooLarge\<close> contains the decimal
  renderings of \<open>Max\<close> and \<open>Actual\<close>, and the message of \<open>ErrMempoolIsFull\<close> those
  of \<open>NumTxs\<close>, \<open>MaxTxs\<close>, \<open>TxsBytes\<close> and \<open>MaxTxsBytes\<close>, each as a contiguous
  piece; with the values of the spec's examples the pieces are \<^verbatim>\<open>100\<close> and
  \<^verbatim>\<open>150\<close>, and \<^verbatim>\<open>5\<close>, \<^verbatim>\<open>10\<close>, \<^verbatim>\<open>500\<close> and \<^verbatim>\<open>1000\<close>.
\<close>

theorem Error_messages_embed_fields:
  "sublist (FormatInt (sint Max')) (ErrTxTooLarge_Error Max' Actual) \<and>
   sublist (FormatInt (sint Actual)) (ErrTxTooLarge_Error Max' Actual) \<and>
   sublist (FormatInt (sint NumTxs)) (ErrMempoolIsFull_Error NumTxs MaxTxs TxsBytes MaxTxsBytes) \<and>
   sublist (FormatInt (sint MaxTxs)) (ErrMempoolIsFull_Error NumTxs MaxTxs TxsBytes MaxTxsBytes) \<and>
   sublist (FormatInt (sint TxsBytes)) (ErrMempoolIsFull_Error NumTxs MaxTxs TxsBytes MaxTxsBytes) \<and>
   sublist (FormatInt (sint MaxTxsBytes)) (ErrMempoolIsFull_Error NumTxs MaxTxs TxsBytes MaxTxsBytes) \<and>
   Error (ErrTxTooLarge 100 150) = Inr ''Tx too large. Max size is 100, but got 150'' \<and>
   Error (ErrMempoolIsFull 5 10 500 1000) =
     Inr ''mempool is full: number of txs 5 (max: 10), total txs bytes 500 (max: 1000)''"
proof -
  have a: "sublist xs (ys @ xs @ zs)" for xs ys zs :: string
    by (rule sublist_appendI)
  have b: "sublist xs (ys @ us @ vs)" if "sublist xs vs" for xs ys us vs :: string
    using that by (intro sublist_append_skip)
  have c: "sublist xs xs" for xs :: string
    by simp
  have 1: "sublist (FormatInt (sint Max')) (ErrTxTooLarge_Error Max' Actual)"
    unfolding ErrTxTooLarge_Error_eq by (rule a)
  have 2: "sublist (FormatInt (sint Actual)) (ErrTxTooLarge_Error Max' Actual)"
    unfolding ErrTxTooLarge_Error_eq by (intro b sublist_append_leftI)
  have 3: "sublist (FormatInt (sint NumTxs)) (ErrMempoolIsFull_Error NumTxs MaxTxs TxsBytes MaxTxsBytes)"
    unfolding ErrMempoolIsFull_Error_eq by (rule a)
  have 4: "sublist (FormatInt (sint MaxTxs)) (ErrMempoolIsFull_Error NumTxs MaxTxs TxsBytes MaxTxsBytes)"
    unfolding ErrMempoolIsFull_Error_eq by (intro b a)
  have 5: "sublist (FormatInt (sint TxsBytes)) (ErrMempoolIsFull_Error NumTxs MaxTxs TxsBytes MaxTxsBytes)"
    unfolding ErrMempoolIsFull_Error_eq by (intro b a)
  have 6: "sublist (FormatInt (sint MaxTxsBytes)) (ErrMempoolIsFull_Error NumTxs MaxTxs TxsBytes MaxTxsBytes)"
    unfolding ErrMempoolIsFull_Error_eq by (intro b a)
  have 7: "Error (ErrTxTooLarge 100 150) = Inr ''Tx too large. Max size is 100, but got 150''"
    by code_simp
  have 8: "Error (ErrMempoolIsFull 5 10 500 1000) =
     Inr ''mempool is full: number of txs 5 (max: 10), total txs bytes 500 (max: 1000)''"
    by code_simp
  from 1 2 3 4 5 6 7 8 show ?thesis by blast
qed

text \<open>
  C10. The message of an \<open>ErrPreCheck\<close> with a non-nil \<open>Reason\<close> is the outcome of
  \<^verbatim>\<open>Reason.Error()\<close> and nothing else; with the nil \<open>Reason\<close> the call panics on
  the nil dereference.
\<close>

theorem ErrPreCheck_Error_passes_through:
  "Error (ErrPreCheck (Some r)) = Error r \<and>
   Error (ErrPreCheck None) = Inl NilDereference"
  by simp

end
